theory Spec2Isabelle
  imports Main "HOL-Library.Word"
begin

section \<open>The scheduling session of kube-batch (pkg/scheduler/framework/session.go)\<close>

text \<open>
  The Go code works on pointers to jobs, tasks, nodes and queues. A pointer is a reference
  (a natural number) into a store of objects; two references are the same pointer exactly
  when they are equal. Go pointers that are not nil always point to an object, so the
  stores are total functions; a nil pointer only appears as the result of a failed map
  lookup and is an \<open>option\<close> there.
\<close>

type_synonym ref = nat

subsection \<open>Entity model\<close>

text \<open>
  Modelled from the spec: the type declarations of package \<open>api\<close> and \<open>v1alpha1\<close>
  (TaskStatus, TaskInfo, JobInfo, NodeInfo, QueueInfo, PodGroup, ValidateResult) are not in
  the source file. The records hold the fields that session.go reads and writes, under the
  names the source uses, and the task-status set is the one of the spec's data model. A
  task's request and a node's idle, used and releasing capacity are amounts of one
  resource, as integers.
\<close>

datatype TaskStatus =
  Pending | Allocated | AllocatedOverBackfill | Pipelined | Binding
  | Running | Releasing | Succeeded | Failed

definition all_statuses :: "TaskStatus list" where
  "all_statuses =
     [Pending, Allocated, AllocatedOverBackfill, Pipelined, Binding,
      Running, Releasing, Succeeded, Failed]"

datatype PodGroupPhase = PodGroupPending | PodGroupRunning | PodGroupUnknown

datatype ConditionStatus = ConditionTrue | ConditionFalse | ConditionUnknown

definition PodGroupUnschedulableType :: string where
  "PodGroupUnschedulableType = ''Unschedulable''"

record PodGroupCondition =
  cond_Type :: string
  cond_Status :: ConditionStatus
  LastTransitionTime :: nat
  TransitionID :: string
  Reason :: string
  Message :: string

record PodGroupStatus =
  Phase :: PodGroupPhase
  Conditions :: "PodGroupCondition list"
  st_Running :: "32 word"
  st_Failed :: "32 word"
  st_Succeeded :: "32 word"

text \<open>\<open>MinMember\<close> is \<open>PodGroup.Spec.MinMember\<close>, an int32.\<close>

record PodGroup =
  MinMember :: "32 word"
  pg_Status :: PodGroupStatus

text \<open>
  \<open>TaskStatusIndex\<close> is a Go map from status to a map of tasks. A missing status reads as
  the empty map in Go, so the model is a total function; each bucket is the list of the
  task pointers it holds, in the order a \<open>range\<close> over it visits them.
\<close>

record JobInfo =
  job_UID :: string
  job_Namespace :: string
  job_Name :: string
  job_PodGroup :: "PodGroup option"
  TaskStatusIndex :: "TaskStatus \<Rightarrow> ref list"

record TaskInfo =
  Job :: string
  task_Namespace :: string
  task_Name :: string
  NodeName :: string
  Status :: TaskStatus
  Resreq :: int

record NodeInfo =
  node_Name :: string
  Idle :: int
  Used :: int
  node_Releasing :: int
  node_Tasks :: "ref list"

record QueueInfo =
  queue_UID :: string

record ValidateResult =
  Pass :: bool
  vr_Reason :: string
  vr_Message :: string

subsection \<open>Errors and panics\<close>

text \<open>
  A Go \<open>error\<close> is a value the function returns; a nil-pointer dereference is a run-time
  panic that ends the call. Operations that can panic return \<open>panic + result\<close>.
\<close>

datatype error = Error string

datatype panic = NilPointerDereference

subsection \<open>Session, event handlers and the world the session runs in\<close>

text \<open>
  An event handler is a pair of optional callbacks. A callback receives the task of the
  event and works on the state of the plugin that registered it, of type \<open>'p\<close>.
\<close>

record 'p EventHandler =
  AllocateFunc :: "(TaskInfo \<Rightarrow> 'p \<Rightarrow> 'p) option"
  DeallocateFunc :: "(TaskInfo \<Rightarrow> 'p \<Rightarrow> 'p) option"

text \<open>
  The fields of \<open>Session\<close> that the functions below read or write. The function
  registries (\<open>jobValidFns\<close>, \<open>jobReadyFns\<close>, ...) are read only through
  \<open>ssn.JobValid\<close> and \<open>ssn.JobReady\<close>, which are parameters (see \<open>env\<close>).
\<close>

record 'p Session =
  UID :: string
  Jobs :: "ref list"
  TopDogReadyJobs :: "string \<rightharpoonup> ref"
  JobIndex :: "string \<rightharpoonup> ref"
  Nodes :: "ref list"
  NodeIndex :: "string \<rightharpoonup> ref"
  Queues :: "ref list"
  QueueIndex :: "string \<rightharpoonup> ref"
  Others :: "ref list"
  eventHandlers :: "'p EventHandler list"

record ClusterInfo =
  snap_Jobs :: "ref list"
  snap_Nodes :: "ref list"
  snap_Queues :: "ref list"
  snap_Others :: "ref list"

text \<open>The calls a session makes on the cache, in the order it makes them.\<close>

datatype cache_call =
  CallAllocateVolumes ref string
  | CallBindVolumes ref
  | CallBind ref string
  | CallEvict ref string

record 'p world =
  ssn :: "'p Session"
  jobs :: "ref \<Rightarrow> JobInfo"
  tasks :: "ref \<Rightarrow> TaskInfo"
  nodes :: "ref \<Rightarrow> NodeInfo"
  queues :: "ref \<Rightarrow> QueueInfo"
  plugin_state :: 'p
  cache_calls :: "cache_call list"

text \<open>
  What session.go calls and does not define. \<open>JobValid\<close> and \<open>JobReady\<close> are the
  session's policy lookups (\<open>JobReady\<close> is also called with a nil job, see \<open>Allocate\<close>);
  \<open>AllocatedStatus\<close> is the predicate of package \<open>api\<close>; the \<open>cache_\<close> fields are the
  results of the cache's fallible calls; the \<open>_err\<close> fields say when the helper methods
  of JobInfo and NodeInfo return an error.
\<close>

record env =
  JobValid :: "JobInfo \<Rightarrow> ValidateResult option"
  JobReady :: "JobInfo option \<Rightarrow> bool"
  AllocatedStatus :: "TaskStatus \<Rightarrow> bool"
  cache_AllocateVolumes :: "TaskInfo \<Rightarrow> string \<Rightarrow> error option"
  cache_BindVolumes :: "TaskInfo \<Rightarrow> error option"
  cache_Bind :: "TaskInfo \<Rightarrow> string \<Rightarrow> error option"
  cache_Evict :: "TaskInfo \<Rightarrow> string \<Rightarrow> error option"
  UpdateTaskStatus_err :: "JobInfo \<Rightarrow> TaskInfo \<Rightarrow> TaskStatus \<Rightarrow> error option"
  AddTask_err :: "NodeInfo \<Rightarrow> TaskInfo \<Rightarrow> error option"
  UpdateTask_err :: "NodeInfo \<Rightarrow> TaskInfo \<Rightarrow> error option"

subsection \<open>UpdateJobCondition (lines 374-396)\<close>

text \<open>
  The search loop of lines 380-386: the index of the first condition of the given type,
  or -1. The third argument is the index of the head of the list.
\<close>

fun find_index_of_type :: "string \<Rightarrow> PodGroupCondition list \<Rightarrow> nat \<Rightarrow> int" where
  "find_index_of_type T [] i = - 1"
| "find_index_of_type T (c # cs) i =
     (if cond_Type c = T then int i else find_index_of_type T cs (Suc i))"

definition failed_to_find_job :: "JobInfo \<Rightarrow> error" where
  "failed_to_find_job jobInfo =
     Error (''failed to find job <'' @ job_Namespace jobInfo @ ''/'' @ job_Name jobInfo @ ''>'')"

text \<open>
  The job that is updated is the one the session's index holds under the UID of
  \<open>jobInfo\<close>, not \<open>jobInfo\<close> itself. \<open>job.PodGroup\<close> is dereferenced without a check.
\<close>

definition UpdateJobCondition ::
  "ref \<Rightarrow> PodGroupCondition \<Rightarrow> 'p world \<Rightarrow> panic + (error option \<times> 'p world)" where
  "UpdateJobCondition jobInfo cond w =
     (case JobIndex (ssn w) (job_UID (jobs w jobInfo)) of
        None \<Rightarrow> Inr (Some (failed_to_find_job (jobs w jobInfo)), w)
      | Some job \<Rightarrow>
          (case job_PodGroup (jobs w job) of
             None \<Rightarrow> Inl NilPointerDereference
           | Some pg \<Rightarrow>
               let conds = Conditions (pg_Status pg);
                   index = find_index_of_type (cond_Type cond) conds 0;
                   conds' = (if index < 0 then conds @ [cond]
                             else conds[nat index := cond])
               in Inr (None,
                    w\<lparr>jobs := (jobs w)(job :=
                      (jobs w job)\<lparr>job_PodGroup :=
                        Some (pg\<lparr>pg_Status := (pg_Status pg)\<lparr>Conditions := conds'\<rparr>\<rparr>)\<rparr>)\<rparr>)))"

subsection \<open>openSession (lines 65-132)\<close>

text \<open>
  The loop of lines 87-108 over the snapshot's jobs. \<open>now\<close> is the reading of the clock.
  An error of \<open>UpdateJobCondition\<close> is logged and dropped.
\<close>

fun openSession_jobs :: "env \<Rightarrow> nat \<Rightarrow> ref list \<Rightarrow> 'p world \<Rightarrow> panic + 'p world" where
  "openSession_jobs env now [] w = Inr w"
| "openSession_jobs env now (job # rest) w =
     (case JobValid env (jobs w job) of
        Some vjr \<Rightarrow>
          (if \<not> Pass vjr then
             (case UpdateJobCondition job
                     \<lparr>cond_Type = PodGroupUnschedulableType,
                      cond_Status = ConditionTrue,
                      LastTransitionTime = now,
                      TransitionID = UID (ssn w),
                      Reason = vr_Reason vjr,
                      Message = vr_Message vjr\<rparr> w of
                Inl p \<Rightarrow> Inl p
              | Inr (err, w') \<Rightarrow> openSession_jobs env now rest w')
           else openSession_jobs env now rest w)
      | None \<Rightarrow>
          openSession_jobs env now rest
            (w\<lparr>ssn := (ssn w)\<lparr>Jobs := Jobs (ssn w) @ [job]\<rparr>\<rparr>))"

text \<open>The three indexing loops of lines 110-122.\<close>

fun index_jobs :: "(ref \<Rightarrow> JobInfo) \<Rightarrow> ref list \<Rightarrow> (string \<rightharpoonup> ref) \<Rightarrow> (string \<rightharpoonup> ref)" where
  "index_jobs js [] m = m"
| "index_jobs js (job # rest) m = index_jobs js rest (m(job_UID (js job) \<mapsto> job))"

fun index_nodes :: "(ref \<Rightarrow> NodeInfo) \<Rightarrow> ref list \<Rightarrow> (string \<rightharpoonup> ref) \<Rightarrow> (string \<rightharpoonup> ref)" where
  "index_nodes ns [] m = m"
| "index_nodes ns (node # rest) m = index_nodes ns rest (m(node_Name (ns node) \<mapsto> node))"

fun index_queues :: "(ref \<Rightarrow> QueueInfo) \<Rightarrow> ref list \<Rightarrow> (string \<rightharpoonup> ref) \<Rightarrow> (string \<rightharpoonup> ref)" where
  "index_queues qs [] m = m"
| "index_queues qs (queue # rest) m = index_queues qs rest (m(queue_UID (qs queue) \<mapsto> queue))"

text \<open>
  \<open>uid\<close> is the fresh UID of \<open>uuid.NewUUID()\<close>, \<open>snapshot\<close> the result of
  \<open>cache.Snapshot()\<close>; the objects the snapshot points to are the stores of \<open>w\<close>, whose
  session field is replaced by the new session.
\<close>

definition new_session :: "string \<Rightarrow> 'p Session" where
  "new_session uid =
     \<lparr>UID = uid, Jobs = [], TopDogReadyJobs = Map.empty, JobIndex = Map.empty,
      Nodes = [], NodeIndex = Map.empty, Queues = [], QueueIndex = Map.empty,
      Others = [], eventHandlers = []\<rparr>"

definition openSession ::
  "env \<Rightarrow> string \<Rightarrow> nat \<Rightarrow> ClusterInfo \<Rightarrow> 'p world \<Rightarrow> panic + 'p world" where
  "openSession env uid now snapshot w =
     (case openSession_jobs env now (snap_Jobs snapshot) (w\<lparr>ssn := new_session uid\<rparr>) of
        Inl p \<Rightarrow> Inl p
      | Inr w1 \<Rightarrow>
          let s1 = ssn w1;
              s2 = s1\<lparr>JobIndex := index_jobs (jobs w1) (Jobs s1) (JobIndex s1)\<rparr>;
              s3 = s2\<lparr>Nodes := snap_Nodes snapshot\<rparr>;
              s4 = s3\<lparr>NodeIndex := index_nodes (nodes w1) (Nodes s3) (NodeIndex s3)\<rparr>;
              s5 = s4\<lparr>Queues := snap_Queues snapshot\<rparr>;
              s6 = s5\<lparr>QueueIndex := index_queues (queues w1) (Queues s5) (QueueIndex s5)\<rparr>;
              s7 = s6\<lparr>Others := snap_Others snapshot\<rparr>;
              s8 = s7\<lparr>TopDogReadyJobs := Map.empty\<rparr>
          in Inr (w1\<lparr>ssn := s8\<rparr>))"

subsection \<open>jobStatus (lines 165-207)\<close>

text \<open>The loop of lines 170-179.\<close>

fun unschedulable_in :: "string \<Rightarrow> PodGroupCondition list \<Rightarrow> bool" where
  "unschedulable_in uid [] = False"
| "unschedulable_in uid (c # cs) =
     (if cond_Type c = PodGroupUnschedulableType \<and> cond_Status c = ConditionTrue
         \<and> TransitionID c = uid
      then True else unschedulable_in uid cs)"

text \<open>
  The loop of lines 186-191 over the statuses of the index; a status that the Go map does
  not hold adds nothing, as its bucket is empty here.
\<close>

fun count_allocated :: "env \<Rightarrow> (TaskStatus \<Rightarrow> ref list) \<Rightarrow> TaskStatus list \<Rightarrow> nat \<Rightarrow> nat" where
  "count_allocated env idx [] allocated = allocated"
| "count_allocated env idx (status # rest) allocated =
     count_allocated env idx rest
       (if AllocatedStatus env status then allocated + length (idx status) else allocated)"

text \<open>
  \<open>int32(n)\<close> of a length or a sum of lengths keeps the low 32 bits; the comparison with
  \<open>MinMember\<close> is the signed one.
\<close>

definition int32 :: "nat \<Rightarrow> 32 word" where
  "int32 n = word_of_nat n"

definition jobStatus :: "env \<Rightarrow> 'p Session \<Rightarrow> JobInfo \<Rightarrow> panic + PodGroupStatus" where
  "jobStatus env s jobInfo =
     (case job_PodGroup jobInfo of
        None \<Rightarrow> Inl NilPointerDereference
      | Some pg \<Rightarrow>
          let status = pg_Status pg;
              unschedulable = unschedulable_in (UID s) (Conditions status);
              status =
                (if length (TaskStatusIndex jobInfo Running) \<noteq> 0 \<and> unschedulable
                 then status\<lparr>Phase := PodGroupUnknown\<rparr>
                 else
                   let allocated = count_allocated env (TaskStatusIndex jobInfo) all_statuses 0
                   in if MinMember pg <s int32 allocated
                      then status\<lparr>Phase := PodGroupRunning\<rparr>
                      else status\<lparr>Phase := PodGroupPending\<rparr>)
          in Inr (status
               \<lparr>st_Running := int32 (length (TaskStatusIndex jobInfo Running)),
                st_Failed := int32 (length (TaskStatusIndex jobInfo Failed)),
                st_Succeeded := int32 (length (TaskStatusIndex jobInfo Succeeded))\<rparr>))"

subsection \<open>Helper methods of JobInfo and NodeInfo\<close>

text \<open>
  Modelled from the spec: \<open>JobInfo.UpdateTaskStatus\<close> is not in the source file. The spec
  has the job hold "a mapping from task-status to the set of tasks currently in that
  status" and has the session "mark the task" with the new status in the job's index: the
  task leaves the bucket it is in, enters the bucket of the new status, and its status
  field is set. The method returns an error in Go; when it does is not said, so that is
  the parameter \<open>UpdateTaskStatus_err\<close>, and nothing changes then.
\<close>

definition UpdateTaskStatus ::
  "env \<Rightarrow> ref \<Rightarrow> ref \<Rightarrow> TaskStatus \<Rightarrow> 'p world \<Rightarrow> error option \<times> 'p world" where
  "UpdateTaskStatus env job task status w =
     (case UpdateTaskStatus_err env (jobs w job) (tasks w task) status of
        Some err \<Rightarrow> (Some err, w)
      | None \<Rightarrow>
          (None,
           w\<lparr>jobs := (jobs w)(job := (jobs w job)\<lparr>TaskStatusIndex :=
                 (\<lambda>s. if s = status
                      then removeAll task (TaskStatusIndex (jobs w job) s) @ [task]
                      else removeAll task (TaskStatusIndex (jobs w job) s))\<rparr>),
             tasks := (tasks w)(task := (tasks w task)\<lparr>Status := status\<rparr>)\<rparr>))"

text \<open>
  Modelled from the spec: \<open>NodeInfo.AddTask\<close> is not in the source file. The spec has a
  placement "attach" the task "to the node's task list/capacity accounting", with
  idle + used + releasing constant: the task joins the node's list and its request moves
  from idle to used. The error case is the parameter \<open>AddTask_err\<close>.
\<close>

definition AddTask :: "env \<Rightarrow> ref \<Rightarrow> ref \<Rightarrow> 'p world \<Rightarrow> error option \<times> 'p world" where
  "AddTask env node task w =
     (case AddTask_err env (nodes w node) (tasks w task) of
        Some err \<Rightarrow> (Some err, w)
      | None \<Rightarrow>
          (None,
           w\<lparr>nodes := (nodes w)(node := (nodes w node)
                \<lparr>Idle := Idle (nodes w node) - Resreq (tasks w task),
                 Used := Used (nodes w node) + Resreq (tasks w task),
                 node_Tasks := node_Tasks (nodes w node) @ [task]\<rparr>)\<rparr>))"

text \<open>
  Modelled from the spec: \<open>NodeInfo.UpdateTask\<close> is not in the source file. The spec has
  an eviction update "the node's bookkeeping by moving the task's resources from used
  into releasing", idle unchanged. The error case is the parameter \<open>UpdateTask_err\<close>.
\<close>

definition UpdateTask :: "env \<Rightarrow> ref \<Rightarrow> ref \<Rightarrow> 'p world \<Rightarrow> error option \<times> 'p world" where
  "UpdateTask env node task w =
     (case UpdateTask_err env (nodes w node) (tasks w task) of
        Some err \<Rightarrow> (Some err, w)
      | None \<Rightarrow>
          (None,
           w\<lparr>nodes := (nodes w)(node := (nodes w node)
                \<lparr>Used := Used (nodes w node) - Resreq (tasks w task),
                 node_Releasing := node_Releasing (nodes w node) + Resreq (tasks w task)\<rparr>)\<rparr>))"

subsection \<open>Event handlers (lines 290-296 and 362-368)\<close>

fun fire_allocate :: "'p EventHandler list \<Rightarrow> TaskInfo \<Rightarrow> 'p \<Rightarrow> 'p" where
  "fire_allocate [] task p = p"
| "fire_allocate (eh # rest) task p =
     fire_allocate rest task (case AllocateFunc eh of None \<Rightarrow> p | Some f \<Rightarrow> f task p)"


subsection \<open>dispatch (lines 314-335)\<close>

definition dispatch :: "env \<Rightarrow> ref \<Rightarrow> 'p world \<Rightarrow> error option \<times> 'p world" where
  "dispatch env task w =
     (let w1 = w\<lparr>cache_calls := cache_calls w @ [CallBindVolumes task]\<rparr> in
      case cache_BindVolumes env (tasks w1 task) of
        Some err \<Rightarrow> (Some err, w1)
      | None \<Rightarrow>
          let w2 = w1\<lparr>cache_calls :=
                      cache_calls w1 @ [CallBind task (NodeName (tasks w1 task))]\<rparr> in
          (case cache_Bind env (tasks w2 task) (NodeName (tasks w2 task)) of
             Some err \<Rightarrow> (Some err, w2)
           | None \<Rightarrow>
               (case JobIndex (ssn w2) (Job (tasks w2 task)) of
                  Some job \<Rightarrow> (None, snd (UpdateTaskStatus env job task Binding w2))
                | None \<Rightarrow> (None, w2))))"

text \<open>
  The loop of lines 300-305 over the job's Allocated bucket, as it is when the loop
  starts: \<open>dispatch\<close> takes out of the bucket the task of the current step only. An error
  of \<open>dispatch\<close> is logged and the loop goes on.
\<close>

fun dispatch_tasks :: "env \<Rightarrow> ref list \<Rightarrow> 'p world \<Rightarrow> 'p world" where
  "dispatch_tasks env [] w = w"
| "dispatch_tasks env (task # rest) w = dispatch_tasks env rest (snd (dispatch env task w))"

subsection \<open>Allocate (lines 253-312)\<close>

text \<open>
  Lines 258-296: the status update in the job found under \<open>task.Job\<close>, the node name, the
  attachment to the node found under \<open>hostname\<close>, and the allocate callbacks. The errors
  of the helper methods and the failed lookups are logged and dropped.
\<close>

definition Allocate_place :: "env \<Rightarrow> ref \<Rightarrow> string \<Rightarrow> bool \<Rightarrow> 'p world \<Rightarrow> 'p world" where
  "Allocate_place env task hostname usingBackfillTaskRes w =
     (let w1 = (case JobIndex (ssn w) (Job (tasks w task)) of
                  Some job \<Rightarrow>
                    snd (UpdateTaskStatus env job task
                          (if usingBackfillTaskRes then AllocatedOverBackfill else Allocated) w)
                | None \<Rightarrow> w);
          w2 = w1\<lparr>tasks := (tasks w1)(task := (tasks w1 task)\<lparr>NodeName := hostname\<rparr>)\<rparr>;
          w3 = (case NodeIndex (ssn w2) hostname of
                  Some node \<Rightarrow> snd (AddTask env node task w2)
                | None \<Rightarrow> w2)
      in w3\<lparr>plugin_state :=
              fire_allocate (eventHandlers (ssn w3)) (tasks w3 task) (plugin_state w3)\<rparr>)"

text \<open>
  \<open>job\<close> is the result of the lookup of line 259, nil (\<open>None\<close>) when the job is not in the
  index. Lines 299-309 pass it to \<open>JobReady\<close> and, when that holds, read
  \<open>job.TaskStatusIndex\<close> or \<open>job.UID\<close>: on a nil job that is a nil-pointer dereference.
\<close>

definition Allocate ::
  "env \<Rightarrow> ref \<Rightarrow> string \<Rightarrow> bool \<Rightarrow> 'p world \<Rightarrow> panic + (error option \<times> 'p world)" where
  "Allocate env task hostname usingBackfillTaskRes w =
     (let w0 = w\<lparr>cache_calls := cache_calls w @ [CallAllocateVolumes task hostname]\<rparr> in
      case cache_AllocateVolumes env (tasks w0 task) hostname of
        Some err \<Rightarrow> Inr (Some err, w0)
      | None \<Rightarrow>
          let job = JobIndex (ssn w0) (Job (tasks w0 task));
              w4 = Allocate_place env task hostname usingBackfillTaskRes w0
          in if JobReady env (map_option (jobs w4) job) \<and> \<not> usingBackfillTaskRes then
               (case job of
                  None \<Rightarrow> Inl NilPointerDereference
                | Some j \<Rightarrow>
                    Inr (None, dispatch_tasks env (TaskStatusIndex (jobs w4 j) Allocated) w4))
             else if JobReady env (map_option (jobs w4) job) then
               (case job of
                  None \<Rightarrow> Inl NilPointerDereference
                | Some j \<Rightarrow>
                    Inr (None,
                      w4\<lparr>ssn := (ssn w4)\<lparr>TopDogReadyJobs :=
                             (TopDogReadyJobs (ssn w4))(job_UID (jobs w4 j) \<mapsto> j)\<rparr>\<rparr>))
             else Inr (None, w4))"

subsection \<open>Evict (lines 337-371)\<close>


subsection \<open>Notions used to state the properties\<close>

text \<open>
  The number of tasks of a job in a status that \<open>AllocatedStatus\<close> accepts, as a sum over
  the statuses (the mathematical count that lines 186-191 compute).
\<close>

definition allocated_tasks :: "env \<Rightarrow> JobInfo \<Rightarrow> nat" where
  "allocated_tasks env jobInfo =
     (\<Sum>status | AllocatedStatus env status. length (TaskStatusIndex jobInfo status))"




text \<open>
  The world in which line 299 of \<open>Allocate\<close> evaluates readiness: after the cache call
  and lines 258-296.
\<close>

definition readiness_world :: "env \<Rightarrow> ref \<Rightarrow> string \<Rightarrow> bool \<Rightarrow> 'p world \<Rightarrow> 'p world" where
  "readiness_world env task hostname usingBackfillTaskRes w =
     Allocate_place env task hostname usingBackfillTaskRes
       (w\<lparr>cache_calls := cache_calls w @ [CallAllocateVolumes task hostname]\<rparr>)"


subsection \<open>A small cluster\<close>

text \<open>
  One job \<open>job-1\<close> (reference 10) with a gang minimum of 1 and four tasks: \<open>t1\<close> and
  \<open>t5\<close> pending, \<open>t2\<close> allocated and \<open>t3\<close> running on \<open>node-a\<close>; the task \<open>t4\<close> runs
  on \<open>node-a\<close> and belongs to a job \<open>job-9\<close> that the session does not index. The job carries an
  unschedulable condition of an earlier session. The cache refuses to bind \<open>t2\<close>; the
  readiness policy wants two placed tasks. The only plugin logs the events it receives.
\<close>

definition example_handler :: "string list EventHandler" where
  "example_handler =
     \<lparr>AllocateFunc = Some (\<lambda>t p. p @ [''allocate '' @ task_Name t]),
      DeallocateFunc = Some (\<lambda>t p. p @ [''deallocate '' @ task_Name t])\<rparr>"

definition example_env :: env where
  "example_env =
     \<lparr>JobValid = (\<lambda>j. None),
      JobReady = (\<lambda>j. case j of
                     None \<Rightarrow> True
                   | Some job \<Rightarrow> 2 \<le> length (TaskStatusIndex job Allocated)
                                  + length (TaskStatusIndex job AllocatedOverBackfill)),
      AllocatedStatus =
        (\<lambda>s. s = Allocated \<or> s = AllocatedOverBackfill \<or> s = Binding \<or> s = Running),
      cache_AllocateVolumes = (\<lambda>t h. None),
      cache_BindVolumes = (\<lambda>t. None),
      cache_Bind = (\<lambda>t h. if task_Name t = ''t2'' then Some (Error ''bind failed'') else None),
      cache_Evict = (\<lambda>t r. None),
      UpdateTaskStatus_err = (\<lambda>j t s. None),
      AddTask_err = (\<lambda>n t. None),
      UpdateTask_err = (\<lambda>n t. None)\<rparr>"

definition stale_condition :: PodGroupCondition where
  "stale_condition =
     \<lparr>cond_Type = PodGroupUnschedulableType, cond_Status = ConditionTrue,
      LastTransitionTime = 7, TransitionID = ''ssn-0'',
      Reason = ''NotEnoughResources'', Message = ''1/2 tasks in gang unschedulable''\<rparr>"

definition example_podgroup :: PodGroup where
  "example_podgroup =
     \<lparr>MinMember = 1,
      pg_Status = \<lparr>Phase = PodGroupPending, Conditions = [stale_condition],
                   st_Running = 0, st_Failed = 0, st_Succeeded = 0\<rparr>\<rparr>"

definition example_job :: JobInfo where
  "example_job =
     \<lparr>job_UID = ''job-1'', job_Namespace = ''default'', job_Name = ''train'',
      job_PodGroup = Some example_podgroup,
      TaskStatusIndex = (\<lambda>s. [])(Pending := [11, 15], Allocated := [12], Running := [13])\<rparr>"

definition example_task :: "string \<Rightarrow> string \<Rightarrow> string \<Rightarrow> TaskStatus \<Rightarrow> int \<Rightarrow> TaskInfo" where
  "example_task job name node status req =
     \<lparr>Job = job, task_Namespace = ''default'', task_Name = name, NodeName = node,
      Status = status, Resreq = req\<rparr>"

definition example_node :: NodeInfo where
  "example_node =
     \<lparr>node_Name = ''node-a'', Idle = 10, Used = 6, node_Releasing = 0,
      node_Tasks = [12, 13, 14]\<rparr>"

definition example_world :: "string list world" where
  "example_world =
     \<lparr>ssn = \<lparr>UID = ''ssn-1'', Jobs = [10], TopDogReadyJobs = Map.empty,
             JobIndex = [''job-1'' \<mapsto> 10], Nodes = [20], NodeIndex = [''node-a'' \<mapsto> 20],
             Queues = [], QueueIndex = Map.empty, Others = [14],
             eventHandlers = [example_handler]\<rparr>,
      jobs = (\<lambda>r. example_job),
      tasks = (\<lambda>r. example_task ''job-9'' ''t4'' ''node-a'' Running 1)
                (11 := example_task ''job-1'' ''t1'' [] Pending 2,
                 12 := example_task ''job-1'' ''t2'' ''node-a'' Allocated 2,
                 13 := example_task ''job-1'' ''t3'' ''node-a'' Running 3,
                 15 := example_task ''job-1'' ''t5'' [] Pending 1),
      nodes = (\<lambda>r. example_node),
      queues = (\<lambda>r. \<lparr>queue_UID = ''default''\<rparr>),
      plugin_state = [],
      cache_calls = []\<rparr>"

definition example_snapshot :: ClusterInfo where
  "example_snapshot = \<lparr>snap_Jobs = [10], snap_Nodes = [20], snap_Queues = [], snap_Others = [14]\<rparr>"

section \<open>Properties\<close>

lemmas example_defs = example_world_def example_env_def example_job_def example_task_def
  example_node_def example_handler_def example_snapshot_def stale_condition_def
  example_podgroup_def

lemma set_all_statuses: "set all_statuses = UNIV"
proof -
  have "s \<in> set all_statuses" for s
    by (cases s) (simp_all add: all_statuses_def)
  then show ?thesis by auto
qed

subsection \<open>UpdateJobCondition keeps one slot per condition type\<close>






subsection \<open>The status reconciler\<close>

lemma distinct_all_statuses: "distinct all_statuses"
  by (simp add: all_statuses_def)

lemma count_allocated_sum_list:
  "count_allocated env idx ss a =
     a + sum_list (map (\<lambda>s. if AllocatedStatus env s then length (idx s) else 0) ss)"
  by (induction ss arbitrary: a) auto

lemma count_allocated_all:
  "count_allocated env (TaskStatusIndex jobInfo) all_statuses 0 = allocated_tasks env jobInfo"
proof -
  have "count_allocated env (TaskStatusIndex jobInfo) all_statuses 0 =
        (\<Sum>s\<in>set all_statuses. if AllocatedStatus env s then length (TaskStatusIndex jobInfo s) else 0)"
    by (simp add: count_allocated_sum_list sum_list_distinct_conv_sum_set distinct_all_statuses)
  also have "\<dots> = (\<Sum>s | AllocatedStatus env s. length (TaskStatusIndex jobInfo s))"
  proof -
    have "finite (UNIV :: TaskStatus set)"
      using finite_set [of all_statuses] by (simp only: set_all_statuses)
    then show ?thesis
      by (simp add: set_all_statuses sum.inter_filter [symmetric])
  qed
  finally show ?thesis by (simp add: allocated_tasks_def)
qed

lemma unschedulable_in_iff:
  "unschedulable_in uid cs \<longleftrightarrow>
     (\<exists>c\<in>set cs. cond_Type c = PodGroupUnschedulableType \<and> cond_Status c = ConditionTrue
        \<and> TransitionID c = uid)"
  by (induction cs) auto

lemma sint_int32: "n < 2 ^ 31 \<Longrightarrow> sint (int32 n) = int n"
proof -
  assume "n < 2 ^ 31"
  then have "int n < 2 ^ 31" by simp
  moreover have "- (2 ^ 31) \<le> int n"
    by (rule order_trans [of _ 0]) simp_all
  ultimately have "signed_take_bit 31 (int n) = int n"
    by (rule signed_take_bit_int_eq_self [rotated])
  then show ?thesis
    by (simp add: int32_def signed_of_nat)
qed

text \<open>
  Claim C4. For a job with a gang specification (a pod group), the phase that \<open>jobStatus\<close>
  computes is Unknown exactly when the job has a Running task and its conditions hold an
  Unschedulable condition with status true and the transition ID of the session;
  otherwise it is Running exactly when the count of tasks in an allocated status exceeds
  the minimum member count, and Pending otherwise. The code compares the count as an
  int32, which is the count itself below 2^31 (last conjunct).
\<close>

theorem jobStatus_phase:
  assumes "job_PodGroup jobInfo = Some pg"
  shows "\<exists>st. jobStatus env s jobInfo = Inr st
     \<and> Phase st =
        (if TaskStatusIndex jobInfo Running \<noteq> []
            \<and> (\<exists>c\<in>set (Conditions (pg_Status pg)).
                  cond_Type c = PodGroupUnschedulableType \<and> cond_Status c = ConditionTrue
                  \<and> TransitionID c = UID s)
         then PodGroupUnknown
         else if MinMember pg <s int32 (allocated_tasks env jobInfo) then PodGroupRunning
         else PodGroupPending)
     \<and> (allocated_tasks env jobInfo < 2 ^ 31 \<longrightarrow>
          (MinMember pg <s int32 (allocated_tasks env jobInfo))
            = (sint (MinMember pg) < int (allocated_tasks env jobInfo)))"
  using assms
  by (auto simp: jobStatus_def Let_def count_allocated_all unschedulable_in_iff
      word_sless_alt sint_int32)

theorem jobStatus_phase_witness:
  "job_PodGroup example_job = Some example_podgroup
   \<and> (\<exists>st. jobStatus example_env (ssn example_world) example_job = Inr st
          \<and> Phase st = PodGroupRunning)"
proof -
  have pg: "job_PodGroup example_job = Some example_podgroup"
    by (simp add: example_job_def)
  from jobStatus_phase [OF pg, of example_env "ssn example_world"]
  obtain st where st: "jobStatus example_env (ssn example_world) example_job = Inr st"
    and ph: "Phase st =
        (if TaskStatusIndex example_job Running \<noteq> []
            \<and> (\<exists>c\<in>set (Conditions (pg_Status example_podgroup)).
                  cond_Type c = PodGroupUnschedulableType \<and> cond_Status c = ConditionTrue
                  \<and> TransitionID c = UID (ssn example_world))
         then PodGroupUnknown
         else if MinMember example_podgroup
                   <s int32 (allocated_tasks example_env example_job) then PodGroupRunning
         else PodGroupPending)"
    by (elim exE conjE) auto
  have "Phase st = PodGroupRunning"
    unfolding ph
    by (simp add: example_defs count_allocated_all [symmetric] all_statuses_def int32_def
        word_sless_alt)
  with pg st show ?thesis by auto
qed

text \<open>
  Claim C8. The reconciler is idempotent: applied again to the job that stores its result,
  with the task-status index and the conditions as they were, it returns the same status
  (phase and counters). The result does not depend on the phase and the counters the job
  held before, and the Running, Failed and Succeeded counters are the sizes of the
  buckets of these statuses (as int32, which is the size itself below 2^31).
\<close>

theorem jobStatus_idempotent:
  assumes "job_PodGroup jobInfo = Some pg"
  shows "\<exists>st. jobStatus env s jobInfo = Inr st
     \<and> jobStatus env s (jobInfo\<lparr>job_PodGroup := Some (pg\<lparr>pg_Status := st\<rparr>)\<rparr>) = Inr st
     \<and> (\<forall>ph r f su.
           jobStatus env s (jobInfo\<lparr>job_PodGroup := Some (pg\<lparr>pg_Status :=
              (pg_Status pg)\<lparr>Phase := ph, st_Running := r, st_Failed := f,
                 st_Succeeded := su\<rparr>\<rparr>)\<rparr>) = Inr st)
     \<and> st_Running st = int32 (length (TaskStatusIndex jobInfo Running))
     \<and> st_Failed st = int32 (length (TaskStatusIndex jobInfo Failed))
     \<and> st_Succeeded st = int32 (length (TaskStatusIndex jobInfo Succeeded))
     \<and> (length (TaskStatusIndex jobInfo Running) < 2 ^ 31 \<longrightarrow>
           sint (st_Running st) = int (length (TaskStatusIndex jobInfo Running)))
     \<and> (length (TaskStatusIndex jobInfo Failed) < 2 ^ 31 \<longrightarrow>
           sint (st_Failed st) = int (length (TaskStatusIndex jobInfo Failed)))
     \<and> (length (TaskStatusIndex jobInfo Succeeded) < 2 ^ 31 \<longrightarrow>
           sint (st_Succeeded st) = int (length (TaskStatusIndex jobInfo Succeeded)))"
  using assms
  by (simp add: jobStatus_def Let_def sint_int32)

theorem jobStatus_idempotent_witness:
  "job_PodGroup example_job = Some example_podgroup
   \<and> (\<exists>st. jobStatus example_env (ssn example_world) example_job = Inr st
          \<and> jobStatus example_env (ssn example_world)
               (example_job\<lparr>job_PodGroup := Some (example_podgroup\<lparr>pg_Status := st\<rparr>)\<rparr>) = Inr st
          \<and> st_Running st = 1 \<and> st_Failed st = 0 \<and> st_Succeeded st = 0)"
proof -
  have pg: "job_PodGroup example_job = Some example_podgroup"
    by (simp add: example_job_def)
  from jobStatus_idempotent [OF pg, of example_env "ssn example_world"]
  obtain st where st: "jobStatus example_env (ssn example_world) example_job = Inr st"
      "jobStatus example_env (ssn example_world)
         (example_job\<lparr>job_PodGroup := Some (example_podgroup\<lparr>pg_Status := st\<rparr>)\<rparr>) = Inr st"
      "st_Running st = int32 (length (TaskStatusIndex example_job Running))"
      "st_Failed st = int32 (length (TaskStatusIndex example_job Failed))"
      "st_Succeeded st = int32 (length (TaskStatusIndex example_job Succeeded))"
    by (elim exE conjE) auto
  have "st_Running st = 1" "st_Failed st = 0" "st_Succeeded st = 0"
    unfolding st by (simp_all add: example_job_def int32_def)
  with pg st(1,2) show ?thesis by auto
qed

subsection \<open>openSession\<close>

text \<open>
  The job index is empty while the loop over the snapshot's jobs runs, so every call of
  \<open>UpdateJobCondition\<close> in it returns the "failed to find job" error: the loop only
  selects the jobs on which \<open>JobValid\<close> returns nil, and changes no job.
\<close>

lemma openSession_jobs_unindexed:
  "JobIndex (ssn w) = Map.empty \<Longrightarrow>
   openSession_jobs env now js w =
     Inr (w\<lparr>ssn := (ssn w)\<lparr>Jobs :=
            Jobs (ssn w) @ filter (\<lambda>j. JobValid env (jobs w j) = None) js\<rparr>\<rparr>)"
proof (induction js arbitrary: w)
  case Nil
  then show ?case by simp
next
  case (Cons j js)
  show ?case
  proof (cases "JobValid env (jobs w j)")
    case None
    then show ?thesis
      using Cons.prems Cons.IH [of "w\<lparr>ssn := (ssn w)\<lparr>Jobs := Jobs (ssn w) @ [j]\<rparr>\<rparr>"]
      by simp
  next
    case (Some vjr)
    then show ?thesis
      using Cons.prems Cons.IH [of w]
      by (simp add: UpdateJobCondition_def)
  qed
qed

lemma openSession_result:
  "openSession env uid now snapshot w =
     Inr (w\<lparr>ssn :=
       \<lparr>UID = uid,
        Jobs = filter (\<lambda>j. JobValid env (jobs w j) = None) (snap_Jobs snapshot),
        TopDogReadyJobs = Map.empty,
        JobIndex = index_jobs (jobs w)
          (filter (\<lambda>j. JobValid env (jobs w j) = None) (snap_Jobs snapshot)) Map.empty,
        Nodes = snap_Nodes snapshot,
        NodeIndex = index_nodes (nodes w) (snap_Nodes snapshot) Map.empty,
        Queues = snap_Queues snapshot,
        QueueIndex = index_queues (queues w) (snap_Queues snapshot) Map.empty,
        Others = snap_Others snapshot,
        eventHandlers = []\<rparr>\<rparr>)"
  by (simp add: openSession_def openSession_jobs_unindexed new_session_def Let_def)



lemma openSession_changes_no_job:
  "\<exists>w'. openSession env uid now snapshot w = Inr w' \<and> jobs w' = jobs w"
  by (simp add: openSession_result)





subsection \<open>What the steps of Allocate and dispatch change\<close>

lemma UpdateTaskStatus_frame [simp]:
  "ssn (snd (UpdateTaskStatus env j t st w)) = ssn w"
  "nodes (snd (UpdateTaskStatus env j t st w)) = nodes w"
  "queues (snd (UpdateTaskStatus env j t st w)) = queues w"
  "plugin_state (snd (UpdateTaskStatus env j t st w)) = plugin_state w"
  "cache_calls (snd (UpdateTaskStatus env j t st w)) = cache_calls w"
  by (simp_all add: UpdateTaskStatus_def split: option.splits)


lemma UpdateTaskStatus_buckets:
  "UpdateTaskStatus_err env (jobs w j) (tasks w t) st = None \<Longrightarrow>
   t \<in> set (TaskStatusIndex (jobs (snd (UpdateTaskStatus env j t st w)) j) s) \<longleftrightarrow> s = st"
  by (simp add: UpdateTaskStatus_def)

lemma AddTask_frame [simp]:
  "ssn (snd (AddTask env n t w)) = ssn w"
  "jobs (snd (AddTask env n t w)) = jobs w"
  "tasks (snd (AddTask env n t w)) = tasks w"
  "queues (snd (AddTask env n t w)) = queues w"
  "plugin_state (snd (AddTask env n t w)) = plugin_state w"
  "cache_calls (snd (AddTask env n t w)) = cache_calls w"
  by (simp_all add: AddTask_def split: option.splits)

lemma UpdateTask_frame [simp]:
  "ssn (snd (UpdateTask env n t w)) = ssn w"
  "jobs (snd (UpdateTask env n t w)) = jobs w"
  "tasks (snd (UpdateTask env n t w)) = tasks w"
  "queues (snd (UpdateTask env n t w)) = queues w"
  "plugin_state (snd (UpdateTask env n t w)) = plugin_state w"
  "cache_calls (snd (UpdateTask env n t w)) = cache_calls w"
  by (simp_all add: UpdateTask_def split: option.splits)

lemma Allocate_place_frame [simp]:
  "ssn (Allocate_place env t h bf w) = ssn w"
  "queues (Allocate_place env t h bf w) = queues w"
  "cache_calls (Allocate_place env t h bf w) = cache_calls w"
  by (simp_all add: Allocate_place_def Let_def split: option.splits)



lemma readiness_world_frame [simp]:
  "ssn (readiness_world env t h bf w) = ssn w"
  "cache_calls (readiness_world env t h bf w) = cache_calls w @ [CallAllocateVolumes t h]"
  by (simp_all add: readiness_world_def)



lemma Allocate_unfold:
  "Allocate env task hostname bf w =
     (case cache_AllocateVolumes env (tasks w task) hostname of
        Some err \<Rightarrow>
          Inr (Some err, w\<lparr>cache_calls := cache_calls w @ [CallAllocateVolumes task hostname]\<rparr>)
      | None \<Rightarrow>
          let job = JobIndex (ssn w) (Job (tasks w task));
              w4 = readiness_world env task hostname bf w
          in if JobReady env (map_option (jobs w4) job) \<and> \<not> bf then
               (case job of
                  None \<Rightarrow> Inl NilPointerDereference
                | Some j \<Rightarrow>
                    Inr (None, dispatch_tasks env (TaskStatusIndex (jobs w4 j) Allocated) w4))
             else if JobReady env (map_option (jobs w4) job) then
               (case job of
                  None \<Rightarrow> Inl NilPointerDereference
                | Some j \<Rightarrow>
                    Inr (None,
                      w4\<lparr>ssn := (ssn w4)\<lparr>TopDogReadyJobs :=
                             (TopDogReadyJobs (ssn w4))(job_UID (jobs w4 j) \<mapsto> j)\<rparr>\<rparr>))
             else Inr (None, w4))"
  by (simp add: Allocate_def readiness_world_def Let_def split: option.splits)






lemma dispatch_frame [simp]:
  "ssn (snd (dispatch env t w)) = ssn w"
  "nodes (snd (dispatch env t w)) = nodes w"
  "queues (snd (dispatch env t w)) = queues w"
  "plugin_state (snd (dispatch env t w)) = plugin_state w"
  by (simp_all add: dispatch_def Let_def split: option.splits)







subsection \<open>Allocate\<close>

text \<open>
  Claim C5. When the cache's \<open>AllocateVolumes\<close> returns an error, \<open>Allocate\<close> returns
  that error and nothing changes but the record of the cache call: the tasks (status and
  node name), the jobs, the nodes (task lists and capacities), the plugins' state (no
  handler has run) and the session (the backfill-ready set among its fields) are as
  before.
\<close>

theorem Allocate_volume_failure_mutates_nothing:
  assumes "cache_AllocateVolumes env (tasks w task) hostname = Some err"
  shows "\<exists>w'. Allocate env task hostname usingBackfillTaskRes w = Inr (Some err, w')
           \<and> w' = w\<lparr>cache_calls := cache_calls w @ [CallAllocateVolumes task hostname]\<rparr>
           \<and> tasks w' = tasks w \<and> jobs w' = jobs w \<and> nodes w' = nodes w
           \<and> plugin_state w' = plugin_state w \<and> ssn w' = ssn w"
  using assms by (simp add: Allocate_def Let_def)

theorem Allocate_volume_failure_mutates_nothing_witness:
  "cache_AllocateVolumes (example_env\<lparr>cache_AllocateVolumes := \<lambda>t h. Some (Error ''no volume'')\<rparr>)
      (tasks example_world 11) ''node-a'' = Some (Error ''no volume'')
   \<and> Allocate (example_env\<lparr>cache_AllocateVolumes := \<lambda>t h. Some (Error ''no volume'')\<rparr>)
        11 ''node-a'' False example_world
      = Inr (Some (Error ''no volume''),
             example_world\<lparr>cache_calls := [CallAllocateVolumes 11 ''node-a'']\<rparr>)"
  using Allocate_volume_failure_mutates_nothing
    [of "example_env\<lparr>cache_AllocateVolumes := \<lambda>t h. Some (Error ''no volume'')\<rparr>"
        example_world 11 "''node-a''" "Error ''no volume''" False]
  by (simp add: example_defs)

text \<open>
  Apart from the panic on a nil job, the value \<open>Allocate\<close> returns is the result of
  \<open>AllocateVolumes\<close>: the errors of the status update, of the node attachment and of
  the binds never reach it.
\<close>

lemma Allocate_return_value:
  assumes "JobIndex (ssn w) (Job (tasks w task)) \<noteq> None \<or> \<not> JobReady env None"
  shows "\<exists>w'. Allocate env task hostname usingBackfillTaskRes w =
               Inr (cache_AllocateVolumes env (tasks w task) hostname, w')"
  using assms
  by (cases "cache_AllocateVolumes env (tasks w task) hostname")
     (auto simp: Allocate_unfold Let_def split: option.splits)

text \<open>
  Claim C10 fails on the code. Task \<open>t4\<close> belongs to a job that the session does not index,
  the volume reservation succeeds and no readiness function objects (\<open>JobReady\<close> is true
  everywhere, as with no function registered): line 299 passes the nil job to \<open>JobReady\<close>
  and line 300 reads \<open>job.TaskStatusIndex\<close>, so the call panics and returns nothing.
\<close>

theorem Allocate_nil_job_panics:
  "JobIndex (ssn example_world) (Job (tasks example_world 14)) = None
   \<and> cache_AllocateVolumes (example_env\<lparr>JobReady := \<lambda>j. True\<rparr>) (tasks example_world 14) ''node-a''
       = None
   \<and> Allocate (example_env\<lparr>JobReady := \<lambda>j. True\<rparr>) 14 ''node-a'' False example_world
       = Inl NilPointerDereference"
  by (simp add: Allocate_def Let_def example_defs)





subsection \<open>Evict\<close>




end
